theory Spec2Isabelle
  imports Main "HOL-Library.Word"
begin

section \<open>JavaScript strings\<close>

text \<open>
  A JavaScript string is a sequence of 16-bit UTF-16 code units. The literals of the
  source are written as Isabelle strings and converted by \<open>js\<close>; the few code units
  beyond ASCII (the emoji, the arrow and the dash of the reply templates) are written out.
\<close>

type_synonym codeunit = "16 word"
type_synonym jsstring = "codeunit list"

definition cu :: "char \<Rightarrow> codeunit" where
  "cu c = of_nat (of_char c)"

definition js :: "string \<Rightarrow> jsstring" where
  "js s = map cu s"

text \<open>
  \<open>String.prototype.trim\<close> removes the code units of WhiteSpace and LineTerminator
  (ECMA-262) from both ends.
\<close>

definition isWhiteSpace :: "codeunit \<Rightarrow> bool" where
  "isWhiteSpace c =
     (c \<in> {0x09, 0x0A, 0x0B, 0x0C, 0x0D, 0x20, 0xA0, 0x1680, 0x2028, 0x2029, 0x202F,
            0x205F, 0x3000, 0xFEFF} \<or> (0x2000 \<le> c \<and> c \<le> 0x200A))"

definition trimStart :: "jsstring \<Rightarrow> jsstring" where
  "trimStart s = dropWhile isWhiteSpace s"

definition trimEnd :: "jsstring \<Rightarrow> jsstring" where
  "trimEnd s = rev (dropWhile isWhiteSpace (rev s))"

definition trim :: "jsstring \<Rightarrow> jsstring" where
  "trim s = trimStart (trimEnd s)"

text \<open>
  Upper-casing of one code unit. It is exact on ASCII (\<open>a\<close>..\<open>z\<close> go to \<open>A\<close>..\<open>Z\<close>)
  and on surrogate code units (unchanged). \<open>sentenceCase\<close> is only ever applied to the
  template lines of the generator, which begin with \<open>-\<close> or with the high surrogate of
  an emoji (lemma \<open>responseSections_heads\<close>), so the Unicode case table for the
  remaining code units is never consulted and they are left as they are here.
\<close>

definition asciiUpper :: "codeunit \<Rightarrow> codeunit" where
  "asciiUpper c = (if 0x61 \<le> c \<and> c \<le> 0x7A then c - 0x20 else c)"

text \<open>
  \<open>Array.prototype.join\<close> on an array of strings.
\<close>

fun join :: "jsstring \<Rightarrow> jsstring list \<Rightarrow> jsstring" where
  "join sep [] = []"
| "join sep [x] = x"
| "join sep (x # y # ys) = x @ sep @ join sep (y # ys)"

section \<open>Regular expressions of the source\<close>

text \<open>
  Every regular expression of the source is an alternation of plain ASCII words with
  the \<open>i\<close> flag and without the \<open>u\<close> flag, used through \<open>test\<close>: it holds when one
  of the words occurs somewhere in the input, compared code unit by code unit after
  canonicalisation. On ASCII, Canonicalize is upper-casing; a code unit from 128 on
  never canonicalises to an ASCII one, so against these ASCII words the comparison
  after \<open>asciiUpper\<close> is the one the engine makes.
\<close>

fun matchesAt :: "jsstring \<Rightarrow> jsstring \<Rightarrow> bool" where
  "matchesAt [] s = True"
| "matchesAt (p # ps) [] = False"
| "matchesAt (p # ps) (c # cs) = (asciiUpper p = asciiUpper c \<and> matchesAt ps cs)"

fun containsCI :: "jsstring \<Rightarrow> jsstring \<Rightarrow> bool" where
  "containsCI p [] = matchesAt p []"
| "containsCI p (c # cs) = (matchesAt p (c # cs) \<or> containsCI p cs)"

definition regexTestI :: "string list \<Rightarrow> jsstring \<Rightarrow> bool" where
  "regexTestI alternatives input = list_ex (\<lambda>w. containsCI (js w) input) alternatives"

section \<open>The heuristic response generator\<close>

record AssistantResponse =
  reply :: jsstring
  summary :: "jsstring option"
  followUps :: "jsstring list option"

definition marketplaces :: "string list" where
  "marketplaces = [''Amazon'', ''Flipkart'', ''Meesho'', ''Myntra'']"

definition sentenceCase :: "jsstring \<Rightarrow> jsstring" where
  "sentenceCase text =
     (if text = [] then []
      else (case trim text of [] \<Rightarrow> [] | c # rest \<Rightarrow> asciiUpper c # rest))"

definition detectedMarketplaces :: "jsstring \<Rightarrow> string list" where
  "detectedMarketplaces input = filter (\<lambda>name. regexTestI [name] input) marketplaces"

definition wantsCatalog :: "jsstring \<Rightarrow> bool" where
  "wantsCatalog input =
     (regexTestI [''catalog'', ''listing'', ''sheet'', ''excel'', ''sku'', ''product''] input
      \<or> length (detectedMarketplaces input) > 0)"

definition wantsTasks :: "jsstring \<Rightarrow> bool" where
  "wantsTasks input =
     regexTestI [''task'', ''plan'', ''today'', ''remind'', ''schedule'', ''priority'',
                 ''deadline''] input"

definition taskSection :: "jsstring list" where
  "taskSection =
     [[0xD83D, 0xDDC2, 0xFE0F] @ js '' Daily Ops Blueprint:'',
      js ''- Prioritise based on impact '' @ [0x2192]
        @ js '' revenue, compliance, customer experience.'',
      js ''- Break work into 90-minute focus blocks with clear Done Definitions.'',
      js ''- Reserve the final block for QA checks and reporting back to leadership.'']"

definition channelPlan :: "jsstring \<Rightarrow> jsstring" where
  "channelPlan input =
     (if length (detectedMarketplaces input) \<noteq> 0
      then join (js '', '') (map js (detectedMarketplaces input))
      else js ''Amazon, Flipkart, Meesho, and Myntra'')"

definition catalogSection :: "jsstring \<Rightarrow> jsstring list" where
  "catalogSection plan =
     [[0xD83D, 0xDED2] @ js '' '' @ plan @ js '' Listing Automation:'',
      js ''- Clean your master sheet: ensure SKU, Title, MRP, Offer Price, Color, Size, Fabric, and Image URLs are present.'',
      js ''- Use the Catalog Automation Lab panel '' @ [0x2192]
        @ js '' upload the latest supplier file, then generate marketplace CSVs.'',
      js ''- Enrich copy automatically: include 3 USP bullet points, search keywords, and compliance notes for GST/Legal.'']"

definition readySection :: "jsstring list" where
  "readySection =
     [[0xD83E, 0xDD16] @ js '' Jarvis Ready:'',
      js ''- Share a task, question, or catalog sheet'' @ [0x2014]
        @ js ''I will prep the steps, automations, and documents you need.'']"

definition responseSections :: "jsstring \<Rightarrow> jsstring list" where
  "responseSections input =
     (if wantsTasks input then taskSection else [])
     @ (if wantsCatalog input then catalogSection (channelPlan input) else [])
     @ (if \<not> wantsCatalog input \<and> \<not> wantsTasks input then readySection else [])"

definition taskFollowUps :: "jsstring list" where
  "taskFollowUps =
     [js ''Should I schedule reminders and sync them to your preferred calendar?'',
      js ''Want me to draft stakeholder updates once each task is closed?'']"

definition catalogFollowUps :: "jsstring list" where
  "catalogFollowUps =
     [js ''Would you like marketplace-compliant image naming rules generated?'',
      js ''Need SEO keywords per SKU for sponsored ads?'']"

definition genericFollowUps :: "jsstring list" where
  "genericFollowUps =
     [js ''Upload the latest catalog so I can generate ready-to-use marketplace sheets.'',
      js ''Tell me your top priority for today and I will create an execution timeline.'']"

definition heuristicFollowUps :: "jsstring \<Rightarrow> jsstring list" where
  "heuristicFollowUps input =
     (let followUps = (if wantsTasks input then taskFollowUps else [])
                      @ (if wantsCatalog input then catalogFollowUps else [])
      in if length followUps = 0 then followUps @ genericFollowUps else followUps)"

definition catalogSummary :: jsstring where
  "catalogSummary = js ''Catalog automation plan prepared with channel-specific actions.''"

definition taskSummary :: jsstring where
  "taskSummary = js ''Daily operations plan generated.''"

definition standbySummary :: jsstring where
  "standbySummary = js ''Standing by for instructions.''"

definition buildHeuristicResponse :: "jsstring \<Rightarrow> AssistantResponse" where
  "buildHeuristicResponse input =
     \<lparr> reply = join [0x0A] (map sentenceCase (responseSections input)),
       summary = Some (if wantsCatalog input then catalogSummary
                       else if wantsTasks input then taskSummary
                       else standbySummary),
       followUps = Some (heuristicFollowUps input) \<rparr>"

section \<open>The conversation session controller\<close>

text \<open>
  The component keeps its state in React state cells; the model gathers them in one
  record. Two more fields log the effects the claims speak of: the requests sent to
  \<open>/api/assistant\<close> and the texts handed to \<open>speak\<close>. The cell \<open>input\<close> of the
  source is the field \<open>inputBuffer\<close>.
\<close>

datatype role = User | Assistant

record Message =
  msg_id :: jsstring
  role :: role
  content :: jsstring
  createdAt :: nat

record Request =
  req_message :: jsstring
  req_history :: "Message list"

record VoiceAgent =
  messages :: "Message list"
  inputBuffer :: jsstring
  listening :: bool
  interimTranscript :: jsstring
  isLoading :: bool
  autoSpeak :: bool
  error :: "jsstring option"
  requests :: "Request list"
  spoken :: "jsstring list"

text \<open>
  What the environment supplies to one round trip: the pair of
  \<open>crypto.randomUUID()\<close> and \<open>Date.now()\<close> for each message built, and how the
  \<open>fetch\<close> ends. A thrown value is an \<open>Error\<close> with its message or something else.
  The body of a response either cannot be read as JSON (\<open>response.json()\<close> rejects), is
  \<open>null\<close> (reading \<open>data.reply\<close> throws a TypeError, whose message is the engine's),
  or is an object, of which only \<open>reply\<close> is read: \<open>None\<close> when it is undefined or
  null, a string otherwise, as the type \<open>AssistantResponse\<close> declares.
  The platform calls \<open>crypto.randomUUID\<close>, \<open>Date.now\<close> and those inside \<open>speak\<close>
  return, as their interfaces say.
\<close>

type_synonym stamp = "jsstring \<times> nat"

datatype thrown = ErrorObj jsstring | NonError

datatype response_data = Unreadable thrown | DataNull jsstring | Data "jsstring option"

datatype fetch_outcome = FetchRejected thrown | FetchResponse nat response_data

record round_trip =
  userStamp :: stamp
  replyStamp :: stamp
  outcome :: fetch_outcome

definition slice6 :: "'a list \<Rightarrow> 'a list" where
  "slice6 xs = drop (length xs - 6) xs"

fun showNat :: "nat \<Rightarrow> jsstring" where
  "showNat n = (if n < 10 then [0x30 + of_nat n]
                else showNat (n div 10) @ [0x30 + of_nat (n mod 10)])"

declare showNat.simps [simp del]

definition ok :: "nat \<Rightarrow> bool" where
  "ok code = (200 \<le> code \<and> code \<le> 299)"

definition mkMessage :: "stamp \<Rightarrow> role \<Rightarrow> jsstring \<Rightarrow> Message" where
  "mkMessage stamp r c = \<lparr> msg_id = fst stamp, role = r, content = c, createdAt = snd stamp \<rparr>"

text \<open>
  \<open>submitMessage\<close> is a \<open>useCallback\<close> with the dependencies \<open>autoSpeak\<close>,
  \<open>isLoading\<close>, \<open>messages\<close> and \<open>speak\<close>: inside it these names stand for the values
  the render that created the callback saw, not for the cells. The setters write the
  cells, and \<open>setMessages\<close> is given a function of the previous value. A cell written by
  a handler is seen by the callbacks only after React has rendered again; the result
  listener is registered by an effect that depends on \<open>submitMessage\<close>, so it calls the
  callback of the last render.
\<close>

record Rendered =
  seen_messages :: "Message list"
  seen_isLoading :: bool
  seen_autoSpeak :: bool

definition render :: "VoiceAgent \<Rightarrow> Rendered" where
  "render st =
     \<lparr> seen_messages = messages st, seen_isLoading = isLoading st,
       seen_autoSpeak = autoSpeak st \<rparr>"

text \<open>The part of \<open>submitMessage\<close> that runs before the \<open>await\<close>, after the guard.\<close>

definition submitStart :: "Rendered \<Rightarrow> jsstring \<Rightarrow> stamp \<Rightarrow> VoiceAgent \<Rightarrow> VoiceAgent" where
  "submitStart cl trimmed stamp st =
     st\<lparr> messages := messages st @ [mkMessage stamp User trimmed],
         inputBuffer := [],
         interimTranscript := [],
         isLoading := True,
         error := None,
         requests := requests st
            @ [\<lparr> req_message = trimmed, req_history = slice6 (seen_messages cl) \<rparr>] \<rparr>"

text \<open>The body of the \<open>try\<close>: the reply to append, or the value thrown.\<close>

definition awaitReply :: "fetch_outcome \<Rightarrow> thrown + jsstring" where
  "awaitReply out =
     (case out of
        FetchRejected e \<Rightarrow> Inl e
      | FetchResponse code data \<Rightarrow>
          if \<not> ok code
          then Inl (ErrorObj (js ''Assistant offline ('' @ showNat code @ js '')''))
          else (case data of
                  Unreadable e \<Rightarrow> Inl e
                | DataNull msg \<Rightarrow> Inl (ErrorObj msg)
                | Data None \<Rightarrow> Inr (js ''I am ready for your next task.'')
                | Data (Some r) \<Rightarrow> Inr r))"

definition issueText :: "thrown \<Rightarrow> jsstring" where
  "issueText err =
     (case err of
        ErrorObj msg \<Rightarrow> js ''I ran into an issue: '' @ msg @ js ''. Please try again.''
      | NonError \<Rightarrow> js ''I ran into an issue. Please try again.'')"

text \<open>
  The part after the \<open>await\<close>, with the \<open>autoSpeak\<close> the callback closed over:
  \<open>try\<close>, \<open>catch\<close> and \<open>finally\<close>.
\<close>

definition submitFinish :: "bool \<Rightarrow> stamp \<Rightarrow> fetch_outcome \<Rightarrow> VoiceAgent \<Rightarrow> VoiceAgent" where
  "submitFinish speakIt stamp out st =
     (case awaitReply out of
        Inr r \<Rightarrow>
          st\<lparr> messages := messages st @ [mkMessage stamp Assistant r],
              spoken := (if speakIt then spoken st @ [r] else spoken st),
              isLoading := False \<rparr>
      | Inl err \<Rightarrow>
          st\<lparr> messages := messages st @ [mkMessage stamp Assistant (issueText err)],
              isLoading := False \<rparr>)"

text \<open>
  \<open>submitMessage\<close> up to its \<open>await\<close>, and the whole of it when nothing else happens
  before the fetch ends. The guard reads the \<open>isLoading\<close> of the callback.
\<close>

definition submitMessageSync :: "Rendered \<Rightarrow> jsstring \<Rightarrow> stamp \<Rightarrow> VoiceAgent \<Rightarrow> VoiceAgent" where
  "submitMessageSync cl text stamp st =
     (if trim text = [] \<or> seen_isLoading cl then st
      else submitStart cl (trim text) stamp st)"

definition submitMessage :: "Rendered \<Rightarrow> jsstring \<Rightarrow> round_trip \<Rightarrow> VoiceAgent \<Rightarrow> VoiceAgent" where
  "submitMessage cl text rt st =
     (if trim text = [] \<or> seen_isLoading cl then st
      else submitFinish (seen_autoSpeak cl) (replyStamp rt) (outcome rt)
             (submitStart cl (trim text) (userStamp rt) st))"

section \<open>The speech capture handler\<close>

text \<open>
  A result segment has the flag \<open>isFinal\<close> and an optional first alternative with an
  optional transcript. The handler is modelled by the calls it makes, in order; each call
  is then run on the state, \<open>submitMessage\<close> (the callback the listener was registered
  with) up to its \<open>await\<close>.
\<close>

record RecognitionEventResult =
  isFinal :: bool
  alternative0 :: "jsstring option option"

record RecognitionEvent =
  resultIndex :: nat
  results :: "RecognitionEventResult list"

definition transcriptOf :: "RecognitionEventResult \<Rightarrow> jsstring" where
  "transcriptOf r = (case alternative0 r of Some (Some t) \<Rightarrow> t | _ \<Rightarrow> [])"

fun collectSegments ::
  "RecognitionEventResult list \<Rightarrow> jsstring \<times> jsstring \<Rightarrow> jsstring \<times> jsstring" where
  "collectSegments [] acc = acc"
| "collectSegments (r # rs) (interim, finalTranscript) =
     (if isFinal r
      then collectSegments rs (interim, finalTranscript @ transcriptOf r)
      else collectSegments rs (interim @ transcriptOf r, finalTranscript))"

datatype call = SetInterimTranscript jsstring | SubmitMessage jsstring

definition handleResult :: "RecognitionEvent \<Rightarrow> call list" where
  "handleResult event =
     (let (interim, finalTranscript) =
            collectSegments (drop (resultIndex event) (results event)) ([], [])
      in SetInterimTranscript interim
         # (if trim finalTranscript \<noteq> [] then [SubmitMessage (trim finalTranscript)] else []))"

fun perform :: "Rendered \<Rightarrow> stamp \<Rightarrow> VoiceAgent \<Rightarrow> call \<Rightarrow> VoiceAgent" where
  "perform cl stamp st (SetInterimTranscript s) = st\<lparr> interimTranscript := s \<rparr>"
| "perform cl stamp st (SubmitMessage t) = submitMessageSync cl t stamp st"

definition onResult :: "Rendered \<Rightarrow> stamp \<Rightarrow> RecognitionEvent \<Rightarrow> VoiceAgent \<Rightarrow> VoiceAgent" where
  "onResult cl stamp event st = foldl (perform cl stamp) st (handleResult event)"

definition submissions :: "call list \<Rightarrow> jsstring list" where
  "submissions calls = [t. SubmitMessage t \<leftarrow> calls]"

section \<open>The server route\<close>

text \<open>
  The route reads untyped JSON: the casts of the source check nothing at run time. A JSON
  number is only ever tested for being zero, so an integer stands for it.
\<close>

datatype json =
    JNull
  | JBool bool
  | JNum int
  | JStr jsstring
  | JArr "json list"
  | JObj "(jsstring \<times> json) list"

text \<open>
  Reading a named property of a value that is neither undefined nor null: an object
  gives the member or undefined (\<open>None\<close>); the names read by the route are no built-in
  property of a string, number, boolean or array.
\<close>

fun getProp :: "json \<Rightarrow> string \<Rightarrow> json option" where
  "getProp (JObj members) k = map_of members (js k)"
| "getProp v k = None"

fun index0 :: "json \<Rightarrow> json option" where
  "index0 (JArr (x # xs)) = Some x"
| "index0 (JStr (c # cs)) = Some (JStr [c])"
| "index0 (JObj members) = map_of members (js ''0'')"
| "index0 v = None"

text \<open>Optional chaining: undefined and null give undefined.\<close>

fun chain :: "json option \<Rightarrow> string \<Rightarrow> json option" where
  "chain None k = None"
| "chain (Some JNull) k = None"
| "chain (Some v) k = getProp v k"

fun chain0 :: "json option \<Rightarrow> json option" where
  "chain0 None = None"
| "chain0 (Some JNull) = None"
| "chain0 (Some v) = index0 v"

fun truthy :: "json \<Rightarrow> bool" where
  "truthy JNull = False"
| "truthy (JBool b) = b"
| "truthy (JNum n) = (n \<noteq> 0)"
| "truthy (JStr s) = (s \<noteq> [])"
| "truthy (JArr xs) = True"
| "truthy (JObj members) = True"

fun truthyOpt :: "json option \<Rightarrow> bool" where
  "truthyOpt None = False"
| "truthyOpt (Some v) = truthy v"

datatype exn = SyntaxError | TypeError | NetworkError | RequestFailed nat | EmptyResponse

text \<open>
  What the route is given besides the request: the key of the process environment, the
  remote endpoint (its answer to the one request made for a history window and a
  message: no connection, or a status and the body, \<open>None\<close> when the body is not JSON)
  and \<open>JSON.parse\<close> applied to the content of the completion (\<open>None\<close> when it throws).
  The fixed parts of the request to the endpoint (model, temperature, schema, system
  prompt) only flow out and are left out. The route returns, with its response, the
  calls it made, in order: requests to the endpoint, runs of the generator and the line
  written by \<open>console.error\<close>.
\<close>

datatype remote_outcome = Unreachable | Answered nat "json option"

record server_env =
  OPENAI_API_KEY :: "jsstring option"
  remote :: "json list \<Rightarrow> jsstring \<Rightarrow> remote_outcome"
  jsonParse :: "json \<Rightarrow> json option"

record NextResponse =
  status :: nat
  jsonBody :: json

datatype server_call = RemoteFetch "json list" jsstring | Generate jsstring | ConsoleError exn

record Served =
  answer :: NextResponse
  calls :: "server_call list"

text \<open>\<open>(body.message ?? "").trim()\<close>\<close>

definition incomingMessageOf :: "json \<Rightarrow> exn + jsstring" where
  "incomingMessageOf body =
     (if body = JNull then Inl TypeError
      else (case getProp body ''message'' of
              None \<Rightarrow> Inr (trim [])
            | Some JNull \<Rightarrow> Inr (trim [])
            | Some (JStr s) \<Rightarrow> Inr (trim s)
            | Some v \<Rightarrow> Inl TypeError))"

text \<open>
  \<open>(body.history ?? []).filter((entry) => entry && entry.role && entry.content).slice(-6)\<close>
\<close>

definition keepEntry :: "json \<Rightarrow> bool" where
  "keepEntry entry =
     (truthy entry \<and> truthyOpt (getProp entry ''role'') \<and> truthyOpt (getProp entry ''content''))"

definition historyOf :: "json \<Rightarrow> exn + json list" where
  "historyOf body =
     (case getProp body ''history'' of
        None \<Rightarrow> Inr (slice6 (filter keepEntry []))
      | Some JNull \<Rightarrow> Inr (slice6 (filter keepEntry []))
      | Some (JArr entries) \<Rightarrow> Inr (slice6 (filter keepEntry entries))
      | Some v \<Rightarrow> Inl TypeError)"

text \<open>\<open>result?.choices?.[0]?.message?.content\<close>\<close>

definition messageContentOf :: "json \<Rightarrow> json option" where
  "messageContentOf result =
     chain (chain (chain0 (chain (Some result) ''choices'')) ''message'') ''content''"

definition toJson :: "AssistantResponse \<Rightarrow> json" where
  "toJson r =
     JObj ([(js ''reply'', JStr (reply r))]
           @ (case summary r of None \<Rightarrow> [] | Some s \<Rightarrow> [(js ''summary'', JStr s)])
           @ (case followUps r of None \<Rightarrow> []
              | Some fs \<Rightarrow> [(js ''followUps'', JArr (map JStr fs))]))"

text \<open>The two calls the claims speak of, each with its entry in the log.\<close>

definition generate :: "jsstring \<Rightarrow> server_call list \<times> AssistantResponse" where
  "generate input = ([Generate input], buildHeuristicResponse input)"

definition fetchRemote ::
  "server_env \<Rightarrow> json list \<Rightarrow> jsstring \<Rightarrow> server_call list \<times> remote_outcome" where
  "fetchRemote env history incomingMessage =
     ([RemoteFetch history incomingMessage], remote env history incomingMessage)"

definition callRemote ::
  "server_env \<Rightarrow> json list \<Rightarrow> jsstring \<Rightarrow> server_call list \<times> (exn + NextResponse)" where
  "callRemote env history incomingMessage =
     (let (log, fetched) = fetchRemote env history incomingMessage
      in (log,
          case fetched of
            Unreachable \<Rightarrow> Inl NetworkError
          | Answered code res \<Rightarrow>
              if \<not> ok code then Inl (RequestFailed code)
              else (case res of
                      None \<Rightarrow> Inl SyntaxError
                    | Some result \<Rightarrow>
                        (case messageContentOf result of
                           None \<Rightarrow> Inl EmptyResponse
                         | Some messageContent \<Rightarrow>
                             if \<not> truthy messageContent then Inl EmptyResponse
                             else (case jsonParse env messageContent of
                                     None \<Rightarrow> Inl SyntaxError
                                   | Some parsed \<Rightarrow>
                                       Inr \<lparr> status = 200, jsonBody = parsed \<rparr>)))))"

text \<open>The body of the \<open>try\<close>; \<open>None\<close> as request is a body that is not JSON.\<close>

definition tryPOST ::
  "server_env \<Rightarrow> json option \<Rightarrow> server_call list \<times> (exn + NextResponse)" where
  "tryPOST env request =
     (case request of
        None \<Rightarrow> ([], Inl SyntaxError)
      | Some body \<Rightarrow>
          (case incomingMessageOf body of
             Inl e \<Rightarrow> ([], Inl e)
           | Inr incomingMessage \<Rightarrow>
               if incomingMessage = []
               then ([], Inr \<lparr> status = 400,
                         jsonBody = JObj [(js ''error'', JStr (js ''Message is required.''))] \<rparr>)
               else if OPENAI_API_KEY env = None \<or> OPENAI_API_KEY env = Some []
               then (let (log, generated) = generate incomingMessage
                     in (log, Inr \<lparr> status = 200, jsonBody = toJson generated \<rparr>))
               else (case historyOf body of
                       Inl e \<Rightarrow> ([], Inl e)
                     | Inr history \<Rightarrow> callRemote env history incomingMessage)))"

definition POST :: "server_env \<Rightarrow> json option \<Rightarrow> Served" where
  "POST env request =
     (case tryPOST env request of
        (log, Inr sent) \<Rightarrow> \<lparr> answer = sent, calls = log \<rparr>
      | (log, Inl err) \<Rightarrow>
          (let (log', generated) = generate []
           in \<lparr> answer = \<lparr> status = 200, jsonBody = toJson generated \<rparr>,
                calls = log @ [ConsoleError err] @ log' \<rparr>))"

section \<open>Concrete states, events and environments\<close>

text \<open>The state the component starts in (the arguments of its \<open>useState\<close> calls).\<close>

definition initialState :: VoiceAgent where
  "initialState =
     \<lparr> messages = [], inputBuffer = [], listening = False, interimTranscript = [],
       isLoading = False, autoSpeak = True, error = None, requests = [], spoken = [] \<rparr>"

text \<open>
  The state after \<open>hi\<close> has been submitted from the start and before its fetch has
  ended.
\<close>

definition waitingState :: VoiceAgent where
  "waitingState = submitMessageSync (render initialState) (js ''hi'') (js ''id-0'', 500) initialState"

definition stamp1 :: stamp where
  "stamp1 = (js ''id-1'', 1000)"

definition stamp2 :: stamp where
  "stamp2 = (js ''id-2'', 2000)"


text \<open>An event with one interim segment and one final segment, both new.\<close>

definition helloEvent :: RecognitionEvent where
  "helloEvent =
     \<lparr> resultIndex = 0,
       results = [\<lparr> isFinal = False, alternative0 = Some (Some (js ''hel'')) \<rparr>,
                  \<lparr> isFinal = True, alternative0 = Some (Some (js ''hello'')) \<rparr>] \<rparr>"

text \<open>A server without key, and one with a key whose endpoint answers HTTP 500.\<close>

definition offlineEnv :: server_env where
  "offlineEnv =
     \<lparr> OPENAI_API_KEY = None, remote = (\<lambda>history message. Unreachable),
       jsonParse = (\<lambda>messageContent. None) \<rparr>"

definition failingEnv :: server_env where
  "failingEnv =
     \<lparr> OPENAI_API_KEY = Some (js ''sk-test''),
       remote = (\<lambda>history message. Answered 500 None),
       jsonParse = (\<lambda>messageContent. None) \<rparr>"

definition requestWith :: "string \<Rightarrow> json option" where
  "requestWith message = Some (JObj [(js ''message'', JStr (js message))])"

section \<open>Properties of the heuristic response generator\<close>

lemma trim_id:
  assumes "s \<noteq> []" "\<not> isWhiteSpace (hd s)" "\<not> isWhiteSpace (last s)"
  shows "trim s = s"
proof -
  have "dropWhile isWhiteSpace (rev s) = rev s"
    using assms by (cases "rev s") (auto simp: last_rev hd_rev)
  hence "trimEnd s = s" by (simp add: trimEnd_def)
  moreover have "dropWhile isWhiteSpace s = s"
    using assms by (cases s) auto
  ultimately show ?thesis by (simp add: trim_def trimStart_def)
qed

lemma trim_idem: "trim (trim s) = trim s"
proof (cases "trim s = []")
  case True
  have "trim [] = []" by (simp add: trim_def trimStart_def trimEnd_def)
  with True show ?thesis by simp
next
  case False
  define d where "d = dropWhile isWhiteSpace (rev s)"
  have t: "trim s = dropWhile isWhiteSpace (rev d)"
    by (simp add: trim_def trimStart_def trimEnd_def d_def)
  have "d \<noteq> []"
  proof
    assume "d = []"
    hence "trim s = []" unfolding t by simp
    with False show False by simp
  qed
  hence "\<not> isWhiteSpace (hd d)"
    unfolding d_def by (rule hd_dropWhile)
  hence "\<not> isWhiteSpace (last (rev d))"
    using \<open>d \<noteq> []\<close> by (simp add: last_rev)
  moreover have "last (rev d) = last (trim s)"
  proof -
    have "rev d = takeWhile isWhiteSpace (rev d) @ trim s"
      unfolding t by simp
    thus ?thesis using False by (metis last_appendR)
  qed
  moreover have "\<not> isWhiteSpace (hd (trim s))"
    using False unfolding t by (rule hd_dropWhile)
  ultimately show ?thesis using False by (simp add: trim_id)
qed

lemma sentenceCase_id:
  assumes "s \<noteq> []" "\<not> isWhiteSpace (hd s)" "\<not> isWhiteSpace (last s)"
    and "asciiUpper (hd s) = hd s"
  shows "sentenceCase s = s"
  using assms trim_id [OF assms(1-3)] by (cases s) (auto simp: sentenceCase_def)

lemma sentenceCase_taskSection: "map sentenceCase taskSection = taskSection"
  by code_simp

lemma sentenceCase_readySection: "map sentenceCase readySection = readySection"
  by code_simp

lemma notWS_D83D: "\<not> isWhiteSpace 0xD83D"
  by (simp add: isWhiteSpace_def)

lemma notWS_colon: "\<not> isWhiteSpace (cu CHR '':'')"
  by code_simp

lemma upper_D83D: "asciiUpper 0xD83D = 0xD83D"
  by (simp add: asciiUpper_def)

lemma sentenceCase_catalog_heading:
  "sentenceCase ([0xD83D, 0xDED2] @ js '' '' @ plan @ js '' Listing Automation:'')
     = [0xD83D, 0xDED2] @ js '' '' @ plan @ js '' Listing Automation:''"
  by (rule sentenceCase_id) (simp_all add: notWS_D83D notWS_colon upper_D83D js_def)

lemma sentenceCase_catalog_bullets:
  "map sentenceCase (tl (catalogSection [])) = tl (catalogSection [])"
  by code_simp

lemma sentenceCase_catalogSection:
  "map sentenceCase (catalogSection plan) = catalogSection plan"
proof -
  have "catalogSection plan = hd (catalogSection plan) # tl (catalogSection [])"
    by (simp add: catalogSection_def)
  moreover have "sentenceCase (hd (catalogSection plan)) = hd (catalogSection plan)"
    using sentenceCase_catalog_heading [of plan] by (simp add: catalogSection_def)
  ultimately show ?thesis
    using sentenceCase_catalog_bullets by (metis list.simps(9))
qed

text \<open>Upper-casing the first character changes none of the template lines.\<close>

lemma sentenceCase_responseSections:
  "map sentenceCase (responseSections input) = responseSections input"
  by (simp add: responseSections_def sentenceCase_taskSection sentenceCase_readySection
      sentenceCase_catalogSection)

text \<open>Every template line begins with a hyphen or with the high surrogate of an emoji.\<close>

lemma fixed_heads:
  "list_all (\<lambda>l. hd l \<in> {0x2D, 0xD83D, 0xD83E})
     (taskSection @ tl (catalogSection []) @ readySection)"
  by code_simp

lemma responseSections_heads:
  "\<forall>l \<in> set (responseSections input). hd l \<in> {0x2D, 0xD83D, 0xD83E}"
proof -
  have "set (catalogSection (channelPlan input))
          = insert (hd (catalogSection (channelPlan input))) (set (tl (catalogSection [])))"
    by (simp add: catalogSection_def)
  moreover have "hd (hd (catalogSection (channelPlan input))) = 0xD83D"
    by (simp add: catalogSection_def)
  ultimately show ?thesis
    using fixed_heads by (auto simp: responseSections_def list_all_iff)
qed

lemma join_nonempty: "x \<noteq> [] \<Longrightarrow> join sep (x # xs) \<noteq> []"
  by (cases xs) simp_all

lemma responseSections_first:
  "\<exists>x xs. responseSections input = x # xs \<and> x \<noteq> []"
  by (auto simp: responseSections_def taskSection_def catalogSection_def readySection_def)

text \<open>
  C1. For every input string, the empty one included, \<open>buildHeuristicResponse\<close> returns
  a response whose \<open>reply\<close> is not the empty string. The function is total: a section is
  always pushed, and no operation it uses raises on a string.
\<close>

theorem heuristic_reply_nonempty: "reply (buildHeuristicResponse input) \<noteq> []"
proof -
  obtain x xs where "responseSections input = x # xs" "x \<noteq> []"
    using responseSections_first by blast
  hence "join [0x0A] (map sentenceCase (responseSections input)) \<noteq> []"
    unfolding sentenceCase_responseSections by (simp add: join_nonempty)
  thus ?thesis by (simp add: buildHeuristicResponse_def)
qed




lemma prime_day_facts:
  "detectedMarketplaces (js ''Plan my Amazon Prime Day listings'') = [''Amazon'']
   \<and> wantsCatalog (js ''Plan my Amazon Prime Day listings'')
   \<and> wantsTasks (js ''Plan my Amazon Prime Day listings'')"
  by code_simp

text \<open>
  C3, as the specification states it, fails on the code: in the input
  \<open>Plan my Amazon Prime Day listings\<close> the word \<open>Plan\<close> matches \<open>plan\<close> of the task
  vocabulary, so the task intent holds.
\<close>

theorem prime_day_counterexample:
  "\<not> (detectedMarketplaces (js ''Plan my Amazon Prime Day listings'') = [''Amazon'']
      \<and> wantsCatalog (js ''Plan my Amazon Prime Day listings'')
      \<and> \<not> wantsTasks (js ''Plan my Amazon Prime Day listings'')
      \<and> summary (buildHeuristicResponse (js ''Plan my Amazon Prime Day listings''))
          = Some catalogSummary
      \<and> map_option length
            (followUps (buildHeuristicResponse (js ''Plan my Amazon Prime Day listings'')))
          = Some 2)"
  using prime_day_facts by simp

text \<open>
  C3, amended. For the input \<open>Plan my Amazon Prime Day listings\<close> the generator detects
  exactly the marketplace Amazon, both the catalog intent and the task intent hold, the
  summary is the catalog one, and \<open>followUps\<close> is the two task suggestions followed by
  the two catalog suggestions: four entries.
\<close>

theorem prime_day_response:
  "detectedMarketplaces (js ''Plan my Amazon Prime Day listings'') = [''Amazon'']
   \<and> wantsCatalog (js ''Plan my Amazon Prime Day listings'')
   \<and> wantsTasks (js ''Plan my Amazon Prime Day listings'')
   \<and> summary (buildHeuristicResponse (js ''Plan my Amazon Prime Day listings''))
       = Some catalogSummary
   \<and> followUps (buildHeuristicResponse (js ''Plan my Amazon Prime Day listings''))
       = Some (taskFollowUps @ catalogFollowUps)
   \<and> length (taskFollowUps @ catalogFollowUps) = 4"
  using prime_day_facts
  by (simp add: buildHeuristicResponse_def heuristicFollowUps_def taskFollowUps_def
      catalogFollowUps_def)

lemma detected_two:
  assumes "containsCI (js ''Amazon'') input" and "containsCI (js ''Flipkart'') input"
  shows "detectedMarketplaces input
         = ''Amazon'' # ''Flipkart''
           # filter (\<lambda>name. containsCI (js name) input) [''Meesho'', ''Myntra'']"
  using assms by (simp add: detectedMarketplaces_def marketplaces_def regexTestI_def)

text \<open>A word without a newline occurs in a text only within one of its lines.\<close>

lemma asciiUpper_newline: "asciiUpper c = 0x0A \<longleftrightarrow> c = 0x0A"
proof
  assume "asciiUpper c = 0x0A"
  show "c = 0x0A"
  proof (cases "0x61 \<le> c \<and> c \<le> 0x7A")
    case True
    hence "c - 0x20 = 0x0A" using \<open>asciiUpper c = 0x0A\<close> by (simp add: asciiUpper_def)
    hence "c = 0x2A" by (metis add.commute diff_add_cancel numeral_plus_numeral semiring_norm(2-10))
    with True show ?thesis by simp
  next
    case False
    thus ?thesis using \<open>asciiUpper c = 0x0A\<close> by (auto simp: asciiUpper_def split: if_splits)
  qed
qed (simp add: asciiUpper_def)

lemma matchesAt_line:
  "0x0A \<notin> set p \<Longrightarrow> matchesAt p (xs @ 0x0A # ys) = matchesAt p xs"
proof (induction p xs rule: matchesAt.induct)
  case (1 s)
  show ?case by simp
next
  case (2 p ps)
  thus ?case using asciiUpper_newline [of p] by (auto simp: asciiUpper_def)
next
  case (3 p ps c cs)
  thus ?case by simp
qed

lemma containsCI_lines:
  "0x0A \<notin> set p \<Longrightarrow>
     containsCI p (xs @ 0x0A # ys) = (containsCI p xs \<or> containsCI p ys)"
proof (induction xs)
  case Nil
  thus ?case using matchesAt_line [of p "[]" ys] by (cases p) auto
next
  case (Cons x xs)
  thus ?case using matchesAt_line [of p "x # xs" ys] by auto
qed

text \<open>
  C4. When the input contains Amazon and Flipkart, whatever the case of the letters, and
  matches no task word, the marketplaces detected are Amazon, Flipkart and those of
  Meesho and Myntra that occur, in this order of the fixed list. The reply is the catalog
  block and nothing else: the heading with exactly these names joined by commas, then the
  three bullet lines. The heading of the task block occurs nowhere in the reply, and
  neither does the default text that names the full set.
\<close>

theorem two_marketplaces:
  assumes "containsCI (js ''Amazon'') input" and "containsCI (js ''Flipkart'') input"
    and "\<not> wantsTasks input"
  shows "detectedMarketplaces input
           = ''Amazon'' # ''Flipkart''
             # filter (\<lambda>name. containsCI (js name) input) [''Meesho'', ''Myntra'']
       \<and> reply (buildHeuristicResponse input)
           = [0xD83D, 0xDED2] @ js '' Amazon, Flipkart''
             @ (if containsCI (js ''Meesho'') input then js '', Meesho'' else [])
             @ (if containsCI (js ''Myntra'') input then js '', Myntra'' else [])
             @ js '' Listing Automation:'' @ [0x0A]
             @ js ''- Clean your master sheet: ensure SKU, Title, MRP, Offer Price, Color, Size, Fabric, and Image URLs are present.''
             @ [0x0A]
             @ js ''- Use the Catalog Automation Lab panel '' @ [0x2192]
             @ js '' upload the latest supplier file, then generate marketplace CSVs.''
             @ [0x0A]
             @ js ''- Enrich copy automatically: include 3 USP bullet points, search keywords, and compliance notes for GST/Legal.''
       \<and> \<not> containsCI (js ''Daily Ops Blueprint'') (reply (buildHeuristicResponse input))
       \<and> \<not> containsCI (js ''Amazon, Flipkart, Meesho, and Myntra'')
             (reply (buildHeuristicResponse input))"
proof -
  let ?meesho = "containsCI (js ''Meesho'') input"
  let ?myntra = "containsCI (js ''Myntra'') input"
  let ?b1 = "js ''- Clean your master sheet: ensure SKU, Title, MRP, Offer Price, Color, Size, Fabric, and Image URLs are present.''"
  let ?b2a = "js ''- Use the Catalog Automation Lab panel ''"
  let ?b2b = "js '' upload the latest supplier file, then generate marketplace CSVs.''"
  let ?b2 = "?b2a @ [0x2192] @ ?b2b"
  let ?b3 = "js ''- Enrich copy automatically: include 3 USP bullet points, search keywords, and compliance notes for GST/Legal.''"
  let ?h = "\<lambda>meesho myntra. [0xD83D, 0xDED2] @ js '' Amazon, Flipkart''
             @ (if meesho then js '', Meesho'' else [])
             @ (if myntra then js '', Myntra'' else [])
             @ js '' Listing Automation:''"
  let ?names = "''Amazon'' # ''Flipkart''
                  # (if ?meesho then [''Meesho''] else []) @ (if ?myntra then [''Myntra''] else [])"
  have det: "detectedMarketplaces input
           = ''Amazon'' # ''Flipkart''
             # filter (\<lambda>name. containsCI (js name) input) [''Meesho'', ''Myntra'']"
    using assms(1,2) by (rule detected_two)
  hence names: "detectedMarketplaces input = ?names" by simp
  hence "wantsCatalog input"
    "channelPlan input = join (js '', '') (map js ?names)"
    by (simp_all add: wantsCatalog_def channelPlan_def)
  hence "responseSections input = catalogSection (join (js '', '') (map js ?names))"
    using assms(3) by (simp add: responseSections_def)
  hence rep: "reply (buildHeuristicResponse input)
                = join [0x0A] (catalogSection (join (js '', '') (map js ?names)))"
    using sentenceCase_responseSections [of input] by (simp add: buildHeuristicResponse_def)
  have glue: "js '' '' @ js ''Amazon'' @ js '', '' @ js ''Flipkart'' @ rest
                = js '' Amazon, Flipkart'' @ rest"
    "js '', '' @ js ''Meesho'' @ rest = js '', Meesho'' @ rest"
    "js '', '' @ js ''Myntra'' @ rest = js '', Myntra'' @ rest"
    "js '' '' @ js ''Amazon'' @ js '', '' @ js ''Flipkart'' = js '' Amazon, Flipkart''"
    "js '', '' @ js ''Meesho'' = js '', Meesho''"
    "js '', '' @ js ''Myntra'' = js '', Myntra''" for rest
    by (simp_all add: js_def)
  have shape: "reply (buildHeuristicResponse input)
                 = ?h ?meesho ?myntra @ 0x0A # ?b1 @ 0x0A # ?b2 @ 0x0A # ?b3"
    unfolding rep by (simp add: catalogSection_def glue)
  have free: "0x0A \<notin> set (js ''Daily Ops Blueprint'')"
    "0x0A \<notin> set (js ''Amazon, Flipkart, Meesho, and Myntra'')"
    by code_simp+
  have bullets:
    "list_all (\<lambda>line. \<not> containsCI (js ''Daily Ops Blueprint'') line
                    \<and> \<not> containsCI (js ''Amazon, Flipkart, Meesho, and Myntra'') line)
       [?b1, ?b2, ?b3]"
    by code_simp
  have headings:
    "list_all (\<lambda>(meesho, myntra).
         \<not> containsCI (js ''Daily Ops Blueprint'') (?h meesho myntra)
         \<and> \<not> containsCI (js ''Amazon, Flipkart, Meesho, and Myntra'') (?h meesho myntra))
       [(False, False), (False, True), (True, False), (True, True)]"
    by code_simp
  have "(?meesho, ?myntra) \<in> set [(False, False), (False, True), (True, False), (True, True)]"
    by auto
  with headings have heading:
    "\<not> containsCI (js ''Daily Ops Blueprint'') (?h ?meesho ?myntra)"
    "\<not> containsCI (js ''Amazon, Flipkart, Meesho, and Myntra'') (?h ?meesho ?myntra)"
    unfolding list_all_iff by blast+
  from bullets have bullet:
    "\<not> containsCI (js ''Daily Ops Blueprint'') ?b1"
    "\<not> containsCI (js ''Daily Ops Blueprint'') ?b2"
    "\<not> containsCI (js ''Daily Ops Blueprint'') ?b3"
    "\<not> containsCI (js ''Amazon, Flipkart, Meesho, and Myntra'') ?b1"
    "\<not> containsCI (js ''Amazon, Flipkart, Meesho, and Myntra'') ?b2"
    "\<not> containsCI (js ''Amazon, Flipkart, Meesho, and Myntra'') ?b3"
    unfolding list_all_iff by simp_all
  have no_task: "\<not> containsCI (js ''Daily Ops Blueprint'') (reply (buildHeuristicResponse input))"
    unfolding shape using heading(1) bullet(1-3)
    by (simp only: containsCI_lines [OF free(1)] simp_thms)
  have no_default: "\<not> containsCI (js ''Amazon, Flipkart, Meesho, and Myntra'')
                       (reply (buildHeuristicResponse input))"
    unfolding shape using heading(2) bullet(4-6)
    by (simp only: containsCI_lines [OF free(2)] simp_thms)
  from shape have "reply (buildHeuristicResponse input)
           = [0xD83D, 0xDED2] @ js '' Amazon, Flipkart''
             @ (if ?meesho then js '', Meesho'' else [])
             @ (if ?myntra then js '', Myntra'' else [])
             @ js '' Listing Automation:'' @ [0x0A] @ ?b1 @ [0x0A]
             @ ?b2a @ [0x2192] @ ?b2b @ [0x0A] @ ?b3"
    by simp
  with det no_task no_default show ?thesis by blast
qed

lemma stock_facts:
  "containsCI (js ''Amazon'') (js ''flipkart and AMAZON stock'')
   \<and> containsCI (js ''Flipkart'') (js ''flipkart and AMAZON stock'')
   \<and> \<not> containsCI (js ''Meesho'') (js ''flipkart and AMAZON stock'')
   \<and> \<not> containsCI (js ''Myntra'') (js ''flipkart and AMAZON stock'')
   \<and> \<not> wantsTasks (js ''flipkart and AMAZON stock'')"
  by code_simp

theorem two_marketplaces_witness:
  "containsCI (js ''Amazon'') (js ''flipkart and AMAZON stock'')
   \<and> containsCI (js ''Flipkart'') (js ''flipkart and AMAZON stock'')
   \<and> \<not> wantsTasks (js ''flipkart and AMAZON stock'')
   \<and> detectedMarketplaces (js ''flipkart and AMAZON stock'') = [''Amazon'', ''Flipkart'']
   \<and> reply (buildHeuristicResponse (js ''flipkart and AMAZON stock''))
       = [0xD83D, 0xDED2] @ js '' Amazon, Flipkart Listing Automation:'' @ [0x0A]
         @ js ''- Clean your master sheet: ensure SKU, Title, MRP, Offer Price, Color, Size, Fabric, and Image URLs are present.''
         @ [0x0A]
         @ js ''- Use the Catalog Automation Lab panel '' @ [0x2192]
         @ js '' upload the latest supplier file, then generate marketplace CSVs.''
         @ [0x0A]
         @ js ''- Enrich copy automatically: include 3 USP bullet points, search keywords, and compliance notes for GST/Legal.''"
proof -
  have glue: "js '' Amazon, Flipkart'' @ js '' Listing Automation:'' @ rest
              = js '' Amazon, Flipkart Listing Automation:'' @ rest" for rest
    by (simp add: js_def)
  show ?thesis
    using two_marketplaces [of "js ''flipkart and AMAZON stock''"] stock_facts
    by (simp add: glue)
qed

section \<open>Properties of the session controller\<close>

lemma trim_empty: "trim [] = []"
  by (simp add: trim_def trimStart_def trimEnd_def)

lemma hi_trim: "trim (js ''hi'') = js ''hi'' \<and> js ''hi'' \<noteq> []"
  by code_simp

lemma hello_trim: "trim (js ''hello'') = js ''hello'' \<and> js ''hello'' \<noteq> [] \<and> js ''hel'' \<noteq> []"
  by code_simp

lemma blank_trim: "trim (js ''   '') = []"
  by code_simp

lemma waitingState_eq:
  "waitingState =
     \<lparr> messages = [mkMessage (js ''id-0'', 500) User (js ''hi'')], inputBuffer = [],
       listening = False, interimTranscript = [], isLoading = True, autoSpeak = True,
       error = None,
       requests = [\<lparr> req_message = js ''hi'', req_history = [] \<rparr>], spoken = [] \<rparr>"
  using hi_trim
  by (simp add: waitingState_def submitMessageSync_def submitStart_def render_def
      initialState_def slice6_def)

text \<open>
  The guard of \<open>submitMessage\<close>: a blank text, or a callback that saw \<open>isLoading\<close>
  set, changes nothing.
\<close>

lemma submitMessage_guard:
  assumes "trim text = [] \<or> seen_isLoading cl"
  shows "submitMessage cl text rt st = st \<and> submitMessageSync cl text stamp st = st"
  using assms by (simp add: submitMessage_def submitMessageSync_def)

text \<open>
  C6. Two result events arrive one after the other, before React has rendered again, so
  both reach the callback of the first render. The first submission sets \<open>isLoading\<close>,
  yet the second is accepted: the history holds two user messages and two requests have
  been sent.
\<close>

theorem second_event_before_render:
  "isLoading (onResult (render initialState) stamp1 helloEvent initialState)
   \<and> messages (onResult (render initialState) stamp2 helloEvent
        (onResult (render initialState) stamp1 helloEvent initialState))
      = [mkMessage stamp1 User (js ''hello''), mkMessage stamp2 User (js ''hello'')]
   \<and> requests (onResult (render initialState) stamp2 helloEvent
        (onResult (render initialState) stamp1 helloEvent initialState))
      = [\<lparr> req_message = js ''hello'', req_history = [] \<rparr>,
         \<lparr> req_message = js ''hello'', req_history = [] \<rparr>]"
  using hello_trim
  by (simp add: onResult_def handleResult_def helloEvent_def transcriptOf_def
      submitMessageSync_def submitStart_def render_def initialState_def slice6_def)











section \<open>Properties of the speech capture handler\<close>

lemma collect_pair:
  "collectSegments [a, b] ([], [])
     = ((if isFinal a then [] else transcriptOf a) @ (if isFinal b then [] else transcriptOf b),
        (if isFinal a then transcriptOf a else []) @ (if isFinal b then transcriptOf b else []))"
  by simp

lemma hello_event_facts:
  "drop (resultIndex helloEvent) (results helloEvent)
     = [\<lparr> isFinal = False, alternative0 = Some (Some (js ''hel'')) \<rparr>,
        \<lparr> isFinal = True, alternative0 = Some (Some (js ''hello'')) \<rparr>]"
  by (simp add: helloEvent_def)

text \<open>
  C5, as the specification states it, fails on the code: the handler itself stores the
  interim text, and only an accepted \<open>submitMessage\<close> clears it. Once the component has
  rendered with \<open>isLoading\<close> set, the callback returns at its guard and the interim
  transcript stays.
\<close>

theorem interim_kept_counterexample:
  "submissions (handleResult helloEvent) = [js ''hello'']
   \<and> seen_isLoading (render waitingState)
   \<and> interimTranscript (onResult (render waitingState) stamp1 helloEvent waitingState)
      = js ''hel''
   \<and> interimTranscript (onResult (render waitingState) stamp1 helloEvent waitingState) \<noteq> []"
  using hello_trim
  by (simp add: onResult_def handleResult_def helloEvent_def transcriptOf_def
      submitMessageSync_def waitingState_eq render_def submissions_def)

text \<open>
  C5, amended. For an event whose new segments are one interim and one final segment, in
  either order, the handler sets the interim transcript to the text of the interim segment
  alone and, when the final text is not blank after trimming, calls \<open>submitMessage\<close>
  exactly once, with the trimmed final text. When the callback saw \<open>isLoading\<close> unset the
  call is accepted and the interim transcript ends up empty; when it saw \<open>isLoading\<close>
  set the call returns at the guard and the interim transcript ends up as the text of the
  interim segment.
\<close>

theorem interim_and_final:
  assumes "drop (resultIndex event) (results event) = [a, b]"
    and "isFinal a \<noteq> isFinal b"
  shows "handleResult event
           = SetInterimTranscript (transcriptOf (if isFinal a then b else a))
             # (if trim (transcriptOf (if isFinal a then a else b)) \<noteq> []
                then [SubmitMessage (trim (transcriptOf (if isFinal a then a else b)))]
                else [])
       \<and> (trim (transcriptOf (if isFinal a then a else b)) \<noteq> [] \<longrightarrow>
            submissions (handleResult event)
              = [trim (transcriptOf (if isFinal a then a else b))])
       \<and> (trim (transcriptOf (if isFinal a then a else b)) \<noteq> [] \<and> \<not> seen_isLoading cl \<longrightarrow>
            interimTranscript (onResult cl stamp event st) = [])
       \<and> (seen_isLoading cl \<longrightarrow>
            interimTranscript (onResult cl stamp event st)
              = transcriptOf (if isFinal a then b else a))"
proof -
  let ?fin = "transcriptOf (if isFinal a then a else b)"
  let ?int = "transcriptOf (if isFinal a then b else a)"
  have calls: "handleResult event
           = SetInterimTranscript ?int
             # (if trim ?fin \<noteq> [] then [SubmitMessage (trim ?fin)] else [])"
    using assms by (auto simp: handleResult_def collect_pair)
  have subs: "trim ?fin \<noteq> [] \<longrightarrow> submissions (handleResult event) = [trim ?fin]"
    unfolding calls by (simp add: submissions_def)
  have trim_trim: "trim ?fin \<noteq> [] \<Longrightarrow> trim (trim ?fin) \<noteq> []"
    by (simp add: trim_idem)
  have idle: "trim ?fin \<noteq> [] \<and> \<not> seen_isLoading cl \<longrightarrow>
            interimTranscript (onResult cl stamp event st) = []"
    unfolding onResult_def calls using trim_trim
    by (simp add: submitMessageSync_def submitStart_def)
  have busy: "seen_isLoading cl \<longrightarrow> interimTranscript (onResult cl stamp event st) = ?int"
    unfolding onResult_def calls by (simp add: submitMessageSync_def)
  from calls subs idle busy show ?thesis by blast
qed

theorem interim_and_final_witness:
  "submissions (handleResult helloEvent) = [js ''hello'']
   \<and> \<not> seen_isLoading (render initialState)
   \<and> interimTranscript (onResult (render initialState) stamp1 helloEvent initialState) = []
   \<and> seen_isLoading (render waitingState)
   \<and> interimTranscript (onResult (render waitingState) stamp2 helloEvent waitingState)
       = js ''hel''"
  using interim_and_final [OF hello_event_facts, of "render initialState" stamp1 initialState]
    interim_and_final [OF hello_event_facts, of "render waitingState" stamp2 waitingState]
    hello_trim
  by (simp add: transcriptOf_def initialState_def submissions_def render_def waitingState_eq)

section \<open>Properties of the server route\<close>

text \<open>
  C10, as stated, fails on the code for the body \<open>null\<close>: it parses as JSON and has no
  \<open>message\<close>, but reading \<open>body.message\<close> throws, and the \<open>catch\<close> runs the generator
  and answers 200 with its response.
\<close>

theorem null_body_counterexample:
  "POST offlineEnv (Some JNull)
     = \<lparr> answer = \<lparr> status = 200, jsonBody = toJson (buildHeuristicResponse []) \<rparr>,
         calls = [ConsoleError TypeError, Generate []] \<rparr>
   \<and> getProp (toJson (buildHeuristicResponse [])) ''reply''
     = Some (JStr (reply (buildHeuristicResponse [])))"
  by (simp add: POST_def tryPOST_def incomingMessageOf_def toJson_def generate_def)

text \<open>
  C10, amended. A request whose body parses as a JSON value other than \<open>null\<close>, and whose
  \<open>message\<close> is undefined, null or a string that is blank after trimming, is answered
  with status 400 and the error object, which has no \<open>reply\<close>; the route makes no call
  on the way: no request to the endpoint and no run of the generator.
\<close>

theorem blank_message_rejected:
  assumes "body \<noteq> JNull"
    and "getProp body ''message'' = None \<or> getProp body ''message'' = Some JNull
         \<or> (\<exists>s. getProp body ''message'' = Some (JStr s) \<and> trim s = [])"
  shows "POST env (Some body)
           = \<lparr> answer = \<lparr> status = 400,
                 jsonBody = JObj [(js ''error'', JStr (js ''Message is required.''))] \<rparr>,
               calls = [] \<rparr>
       \<and> getProp (jsonBody (answer (POST env (Some body)))) ''reply'' = None"
proof -
  have "incomingMessageOf body = Inr []"
    using assms trim_empty by (auto simp: incomingMessageOf_def)
  hence post: "POST env (Some body)
           = \<lparr> answer = \<lparr> status = 400,
                 jsonBody = JObj [(js ''error'', JStr (js ''Message is required.''))] \<rparr>,
               calls = [] \<rparr>"
    by (simp add: POST_def tryPOST_def)
  have "js ''error'' \<noteq> js ''reply''" by code_simp
  hence "getProp (JObj [(js ''error'', JStr (js ''Message is required.''))]) ''reply'' = None"
    by simp
  with post show ?thesis by simp
qed

theorem blank_message_rejected_witness:
  "POST failingEnv (requestWith ''   '')
     = \<lparr> answer = \<lparr> status = 400,
           jsonBody = JObj [(js ''error'', JStr (js ''Message is required.''))] \<rparr>,
         calls = [] \<rparr>
   \<and> POST offlineEnv (Some (JObj []))
     = \<lparr> answer = \<lparr> status = 400,
           jsonBody = JObj [(js ''error'', JStr (js ''Message is required.''))] \<rparr>,
         calls = [] \<rparr>"
  using blank_message_rejected [of "JObj [(js ''message'', JStr (js ''   ''))]" failingEnv]
    blank_message_rejected [of "JObj []" offlineEnv] blank_trim
  by (simp add: requestWith_def)

lemma today_facts:
  "trim (js ''Plan my tasks for today'') = js ''Plan my tasks for today''
   \<and> js ''Plan my tasks for today'' \<noteq> []
   \<and> js ''sk-test'' \<noteq> []
   \<and> js ''history'' \<noteq> js ''message''
   \<and> wantsTasks (js ''Plan my tasks for today'')
   \<and> \<not> wantsCatalog (js ''Plan my tasks for today'')
   \<and> \<not> wantsCatalog [] \<and> \<not> wantsTasks []
   \<and> taskSummary \<noteq> standbySummary"
  by code_simp

text \<open>
  C2. With a key configured and an endpoint that answers HTTP 500, the route answers the
  message \<open>Plan my tasks for today\<close> with the generator's response for the empty string,
  the standby response, which differs from the generator's response for the message.
\<close>

theorem fallback_ignores_message:
  "answer (POST failingEnv (requestWith ''Plan my tasks for today''))
     = \<lparr> status = 200, jsonBody = toJson (buildHeuristicResponse []) \<rparr>
   \<and> calls (POST failingEnv (requestWith ''Plan my tasks for today''))
     = [RemoteFetch [] (js ''Plan my tasks for today''), ConsoleError (RequestFailed 500),
        Generate []]
   \<and> summary (buildHeuristicResponse []) = Some standbySummary
   \<and> summary (buildHeuristicResponse (js ''Plan my tasks for today'')) = Some taskSummary
   \<and> buildHeuristicResponse [] \<noteq> buildHeuristicResponse (js ''Plan my tasks for today'')"
proof -
  have "incomingMessageOf (JObj [(js ''message'', JStr (js ''Plan my tasks for today''))])
          = Inr (js ''Plan my tasks for today'')"
    using today_facts by (simp add: incomingMessageOf_def)
  hence "tryPOST failingEnv (requestWith ''Plan my tasks for today'')
           = ([RemoteFetch [] (js ''Plan my tasks for today'')], Inl (RequestFailed 500))"
    using today_facts
    by (simp add: tryPOST_def requestWith_def failingEnv_def historyOf_def callRemote_def
        fetchRemote_def ok_def slice6_def)
  hence post: "POST failingEnv (requestWith ''Plan my tasks for today'')
     = \<lparr> answer = \<lparr> status = 200, jsonBody = toJson (buildHeuristicResponse []) \<rparr>,
         calls = [RemoteFetch [] (js ''Plan my tasks for today''),
                  ConsoleError (RequestFailed 500), Generate []] \<rparr>"
    by (simp add: POST_def generate_def)
  have s1: "summary (buildHeuristicResponse []) = Some standbySummary"
    using today_facts by (simp add: buildHeuristicResponse_def)
  have s2: "summary (buildHeuristicResponse (js ''Plan my tasks for today'')) = Some taskSummary"
    using today_facts by (simp add: buildHeuristicResponse_def)
  have "buildHeuristicResponse [] \<noteq> buildHeuristicResponse (js ''Plan my tasks for today'')"
    using s1 s2 today_facts by (metis option.inject)
  with post s1 s2 show ?thesis by simp
qed

end
